theory Spec2Isabelle
  imports Main "HOL-Library.Word" "HOL-Library.Log_Nat"
begin

section \<open>The PCIe SDR source block of gr-osmosdr\<close>

text \<open>
  This theory embeds \<^verbatim>\<open>lib/pciesdr/pciesdr_source_c.cc\<close>: the rational sample-rate
  negotiation, the frequency correction, the gain arbitration between the configured and
  the live value, the start/stop lifecycle and the per-cycle read.

  The object is a record, every method a function from the object to a result and the
  updated object. The device transport (\<^verbatim>\<open>libsdr\<close>) is outside the repository: what it
  answers during one method call is an argument of the method (the record \<open>transport\<close>),
  and every call the block issues is appended to the field \<open>calls\<close>, every line written to
  \<^verbatim>\<open>std::cerr\<close> to the field \<open>cerr\<close>. The mutex around the running flag is not modelled:
  methods run one after the other.
\<close>

subsection \<open>IEEE 754 binary64 arithmetic\<close>

text \<open>
  A C++ \<^verbatim>\<open>double\<close> is modelled by the rational number it denotes. Each arithmetic
  operation computes the exact result and rounds it to 53 significant bits, ties to even,
  as the default rounding mode does. The exponent range is not bounded and NaN and the
  infinities are not values of the model; the two zeros are identified (they compare equal
  in C++, and the program never divides by a \<^verbatim>\<open>double\<close>).
\<close>

type_synonym double = rat

text \<open>\<open>expo x\<close> is the binary exponent of \<open>x \<noteq> 0\<close>: \<open>2 powi expo x \<le> \<bar>x\<bar> < 2 powi (expo x + 1)\<close>.\<close>

definition expo :: "rat \<Rightarrow> int" where
  "expo x = (let (p, q) = quotient_of \<bar>x\<bar>; c = bitlen p - bitlen q
             in if 2 powi c \<le> \<bar>x\<bar> then c else c - 1)"

text \<open>Rounding to the nearest integer, ties to the even one.\<close>

definition rne :: "rat \<Rightarrow> int" where
  "rne m = (let f = \<lfloor>m\<rfloor>; d = m - of_int f
            in if d < 1/2 then f else if 1/2 < d then f + 1
               else if even f then f else f + 1)"

text \<open>Rounding to the nearest binary64 value: a multiple of \<open>2 powi (expo x - 52)\<close>.\<close>

definition rnd :: "rat \<Rightarrow> double" where
  "rnd x = (if x = 0 then 0
            else let u = 2 powi (expo x - 52) in of_int (rne (x / u)) * u)"

definition is_double :: "rat \<Rightarrow> bool" where
  "is_double x = (rnd x = x)"

definition dadd :: "double \<Rightarrow> double \<Rightarrow> double" where
  "dadd x y = rnd (x + y)"

definition dsub :: "double \<Rightarrow> double \<Rightarrow> double" where
  "dsub x y = rnd (x - y)"

definition dmul :: "double \<Rightarrow> double \<Rightarrow> double" where
  "dmul x y = rnd (x * y)"

text \<open>Only called with a divisor that is not zero.\<close>

definition ddiv :: "double \<Rightarrow> double \<Rightarrow> double" where
  "ddiv x y = rnd (x / y)"

text \<open>\<^verbatim>\<open>std::floor\<close> and \<^verbatim>\<open>round\<close> (halfway cases away from zero) are exact.\<close>

definition dfloor :: "double \<Rightarrow> double" where
  "dfloor x = of_int \<lfloor>x\<rfloor>"

definition dround :: "double \<Rightarrow> double" where
  "dround x = (if 0 \<le> x then of_int \<lfloor>x + 1/2\<rfloor> else of_int \<lceil>x - 1/2\<rceil>)"


definition d_0_75 :: double where
  "d_0_75 = 3 / 4"

subsection \<open>Machine integers and conversions\<close>

text \<open>\<^verbatim>\<open>int\<close> and \<^verbatim>\<open>int64_t\<close> are words read in two's complement (\<open>sint\<close>, \<open><s\<close>).\<close>

type_synonym int32 = "32 word"
type_synonym int64 = "64 word"
type_synonym uint64 = "64 word"

text \<open>
  What the C++ standard leaves undefined (a floating value converted to an integer type
  that cannot hold it, an index outside an array, a division by zero) and a recursion that
  does not return are results of their own.
\<close>

datatype fault = Undefined_behaviour | Non_termination

definition trunc :: "rat \<Rightarrow> int" where
  "trunc x = (if 0 \<le> x then \<lfloor>x\<rfloor> else \<lceil>x\<rceil>)"

text \<open>\<^verbatim>\<open>long\<close> is the 64-bit type of the LP64 platforms the block is built for; the values
  of \<^verbatim>\<open>long\<close> variables are kept as integers, within range by \<open>double_to_long\<close>.\<close>

definition double_to_long :: "double \<Rightarrow> int option" where
  "double_to_long x =
     (if - (2 ^ 63) \<le> trunc x \<and> trunc x < 2 ^ 63 then Some (trunc x) else None)"

definition double_to_int64 :: "double \<Rightarrow> int64 option" where
  "double_to_int64 x =
     (if - (2 ^ 63) \<le> trunc x \<and> trunc x < 2 ^ 63 then Some (word_of_int (trunc x)) else None)"


definition long_to_double :: "int \<Rightarrow> double" where
  "long_to_double n = rnd (of_int n)"


text \<open>Division and remainder of C++ truncate towards zero.\<close>

definition c_div :: "int \<Rightarrow> int \<Rightarrow> int" where
  "c_div a b = sgn a * sgn b * (\<bar>a\<bar> div \<bar>b\<bar>)"

definition c_mod :: "int \<Rightarrow> int \<Rightarrow> int" where
  "c_mod a b = a - b * c_div a b"

text \<open>
  \<^verbatim>\<open>static long gcd(long a, long b)\<close>. The recursion need not end when an argument is
  negative (\<^verbatim>\<open>gcd(-4, 6)\<close> calls \<^verbatim>\<open>gcd(-4, 2)\<close>, which calls itself), so the function is
  partial: \<open>None\<close> stands for a call that does not return.
\<close>

partial_function (option) gcd_long :: "int \<Rightarrow> int \<Rightarrow> int option" where
  "gcd_long a b =
     (if a = 0 then Some b
      else if b = 0 then Some a
      else if a < b then gcd_long a (c_mod b a)
      else gcd_long b (c_mod a b))"

text \<open>A C++ array: reading or writing outside it is undefined.\<close>

definition arr_get :: "'a list \<Rightarrow> nat \<Rightarrow> fault + 'a" where
  "arr_get xs i = (if i < length xs then Inr (xs ! i) else Inl Undefined_behaviour)"

definition arr_set :: "'a list \<Rightarrow> nat \<Rightarrow> 'a \<Rightarrow> fault + 'a list" where
  "arr_set xs i v = (if i < length xs then Inr (xs[i := v]) else Inl Undefined_behaviour)"

subsection \<open>The object and the transport\<close>

text \<open>
  Modelled from the spec: the declaration of \<^verbatim>\<open>SDRStartParams\<close> (\<^verbatim>\<open>libsdr.h\<close>) is not part
  of the repository. The record holds the per-port and per-channel arrays the methods
  below write: the sample rate as numerator and denominator (64-bit integers, the source
  casts to \<^verbatim>\<open>int64_t\<close>), the centre frequency in Hz (a 64-bit integer), gain and
  bandwidth (stored as the \<^verbatim>\<open>double\<close> assigned). The length of a list is the length of
  the array (\<^verbatim>\<open>SDR_MAX_RF_PORTS\<close>, \<^verbatim>\<open>SDR_MAX_CHANNELS\<close>).
\<close>

record SDRStartParams =
  sample_rate_num :: "int64 list"
  sample_rate_den :: "int64 list"
  rx_freq :: "uint64 list"
  rx_gain :: "double list"
  rx_bandwidth :: "double list"

text \<open>Modelled from the spec: \<^verbatim>\<open>SDRStats\<close> (\<^verbatim>\<open>libsdr.h\<close>), of which the block prints the
  underflow and overflow counters.\<close>

record SDRStats =
  tx_underflow_count :: int64
  rx_overflow_count :: int64

text \<open>The calls to the transport, with their arguments other than the handle.\<close>

datatype dev_call =
    Msdr_start SDRStartParams
  | Msdr_stop
  | Msdr_get_stats
  | Msdr_read int32 nat int32
  | Msdr_set_rx_gain nat double
  | Msdr_get_rx_gain nat

text \<open>The lines written to \<^verbatim>\<open>std::cerr\<close>.\<close>

datatype message =
    Freq_out_of_range
  | Sample_rate_out_of_range
  | Failed_to_start
  | Get_stats_failed
  | Failed_to_stop int32
  | Failed_read int32 int32 int64 int64
  | Failed_get_stats
  | Stats_counts int64 int64
  | Failed_to_set_rx_gain int32 nat

text \<open>
  What the transport answers during one method call: the status codes, the statistics,
  the number of samples and the timestamp of a read (\<open>msdr_read_timestamp\<close> is the value
  of \<^verbatim>\<open>timestamp_tmp\<close> after the call: 0, its initial value, when the transport does not
  write it), and the live gain.
\<close>

record transport =
  msdr_start_ret :: int32
  msdr_stop_ret :: int32
  msdr_get_stats_ret :: int32
  msdr_get_stats_out :: SDRStats
  msdr_read_ret :: int32
  msdr_read_timestamp :: int64
  msdr_set_rx_gain_ret :: int32
  msdr_get_rx_gain_ret :: double

text \<open>
  The members of \<^verbatim>\<open>pciesdr_source_c\<close> (declared as in \<^verbatim>\<open>pciesdr_sink_c.h\<close>) and the static
  flag \<^verbatim>\<open>_running\<close>; a member \<^verbatim>\<open>_x\<close> is the field \<open>x\<close>. \<open>dev = None\<close> is the null handle.
\<close>

record source =
  dev :: "nat option"
  StartParams :: SDRStartParams
  timestamp_rx :: int64
  running :: bool
  sample_rate :: double
  center_freq :: double
  freq_corr :: double
  auto_gain :: bool
  amp_gain :: double
  vga_gain :: double
  bandwidth :: double
  calls :: "dev_call list"
  cerr :: "message list"

definition call :: "dev_call \<Rightarrow> source \<Rightarrow> source" where
  "call c s = s\<lparr>calls := calls s @ [c]\<rparr>"

definition report :: "message \<Rightarrow> source \<Rightarrow> source" where
  "report m s = s\<lparr>cerr := cerr s @ [m]\<rparr>"

subsection \<open>Frequency and sample rate\<close>


definition pciesdr_set_sample_rate :: "double \<Rightarrow> source \<Rightarrow> fault + (int32 \<times> source)" where
  "pciesdr_set_sample_rate rate s =
     (let chan = 0 in
      if rate < 400000 \<or> rate > 25000000
      then Inr (1, report Sample_rate_out_of_range s)
      else
        (let integral = dfloor rate;
             frac = dsub rate integral;
             precision = 1000000000
         in (case double_to_long (dround (dmul frac (long_to_double precision))) of
               None \<Rightarrow> Inl Undefined_behaviour
             | Some a \<Rightarrow>
            (case gcd_long a precision of
               None \<Rightarrow> Inl Non_termination
             | Some gcd_ \<Rightarrow>
            (if gcd_ = 0 then Inl Undefined_behaviour
             else
            (let denominator = c_div precision gcd_
             in (case double_to_long
                        (ddiv (dround (dmul frac (long_to_double precision)))
                              (long_to_double gcd_)) of
                   None \<Rightarrow> Inl Undefined_behaviour
                 | Some numerator \<Rightarrow>
                (case double_to_int64
                        (dadd (dmul integral (long_to_double denominator))
                              (long_to_double numerator)) of
                   None \<Rightarrow> Inl Undefined_behaviour
                 | Some num \<Rightarrow>
                (case arr_set (sample_rate_num (StartParams s)) chan num of
                   Inl f \<Rightarrow> Inl f
                 | Inr nums \<Rightarrow>
                (case arr_set (sample_rate_den (StartParams s)) chan
                        (word_of_int denominator) of
                   Inl f \<Rightarrow> Inl f
                 | Inr dens \<Rightarrow>
                     Inr (0, s\<lparr>StartParams :=
                                (StartParams s)\<lparr>sample_rate_num := nums,
                                                 sample_rate_den := dens\<rparr>\<rparr>)))))))))))"








subsection \<open>Lifecycle and the per-cycle read\<close>

definition start :: "transport \<Rightarrow> source \<Rightarrow> bool \<times> source" where
  "start tr s =
     (if dev s = None then (False, s)
      else
        let s1 = call (Msdr_start (StartParams s)) s
        in if msdr_start_ret tr \<noteq> 0 then (False, report Failed_to_start s1)
           else
             let s2 = call Msdr_get_stats s1
             in if msdr_get_stats_ret tr \<noteq> 0 then (False, report Get_stats_failed s2)
                else (True, s2\<lparr>timestamp_rx := 0, running := True\<rparr>))"

definition stop :: "transport \<Rightarrow> source \<Rightarrow> bool \<times> source" where
  "stop tr s =
     (if dev s = None then (False, s)
      else
        let s1 = call Msdr_stop s;
            ret = msdr_stop_ret tr
        in if ret \<noteq> 0 then (False, report (Failed_to_stop ret) s1)
           else (True, s1\<lparr>running := False\<rparr>))"

text \<open>The result is the number of items produced; the samples themselves, which the
  transport writes into the output buffer, are not part of the model.\<close>

definition work :: "transport \<Rightarrow> int32 \<Rightarrow> source \<Rightarrow> int32 \<times> source" where
  "work tr noutput_items s =
     (let chan = 0;
          s1 = call (Msdr_read noutput_items chan 100) s;
          rc = msdr_read_ret tr;
          timestamp_tmp = msdr_read_timestamp tr
      in if rc <s 0
         then
           let s2 = report (Failed_read rc noutput_items (timestamp_rx s1) timestamp_tmp) s1;
               s3 = call Msdr_get_stats s2;
               stats = msdr_get_stats_out tr
           in if msdr_get_stats_ret tr \<noteq> 0 then (0, report Failed_get_stats s3)
              else (0, report (Stats_counts (tx_underflow_count stats)
                                            (rx_overflow_count stats)) s3)
         else (rc, s1\<lparr>timestamp_rx := timestamp_tmp\<rparr>))"

subsection \<open>Gain\<close>

text \<open>\<^verbatim>\<open>osmosdr::gain_range_t\<close> as the list of its (start, stop) ranges.\<close>

definition get_gain_range_named :: "string \<Rightarrow> nat \<Rightarrow> (double \<times> double) list" where
  "get_gain_range_named name chan =
     (if ''RF'' = name then [(0, 60)]
      else if ''IF'' = name then [(0, 60)]
      else [])"

definition get_gain_range :: "nat \<Rightarrow> (double \<times> double) list" where
  "get_gain_range chan = get_gain_range_named ''RF'' chan"



definition get_gain :: "transport \<Rightarrow> nat \<Rightarrow> source \<Rightarrow> fault + (double \<times> source)" where
  "get_gain tr chan s =
     (case arr_get (rx_gain (StartParams s)) chan of
        Inl f \<Rightarrow> Inl f
      | Inr gain \<Rightarrow>
          if running s then Inr (msdr_get_rx_gain_ret tr, call (Msdr_get_rx_gain chan) s)
          else Inr (gain, s))"

definition set_gain :: "transport \<Rightarrow> double \<Rightarrow> nat \<Rightarrow> source \<Rightarrow> fault + (double \<times> source)" where
  "set_gain tr gain chan s =
     (case arr_set (rx_gain (StartParams s)) chan gain of
        Inl f \<Rightarrow> Inl f
      | Inr gains \<Rightarrow>
          let s1 = s\<lparr>StartParams := (StartParams s)\<lparr>rx_gain := gains\<rparr>\<rparr>;
              (ret, s2) = (if running s1
                           then (msdr_set_rx_gain_ret tr,
                                 call (Msdr_set_rx_gain chan (gains ! chan)) s1)
                           else (0, s1));
              s3 = (if ret \<noteq> 0 then report (Failed_to_set_rx_gain ret chan) s2 else s2)
          in get_gain tr chan s3)"

definition set_if_gain :: "double \<Rightarrow> nat \<Rightarrow> source \<Rightarrow> double \<times> source" where
  "set_if_gain gain chan s =
     (let if_gains = get_gain_range_named ''IF'' chan in (vga_gain s, s))"


definition set_gain_named ::
  "transport \<Rightarrow> double \<Rightarrow> string \<Rightarrow> nat \<Rightarrow> source \<Rightarrow> fault + (double \<times> source)" where
  "set_gain_named tr gain name chan s =
     (if ''RF'' = name then set_gain tr gain chan s
      else if ''IF'' = name then Inr (set_if_gain gain chan s)
      else set_gain tr gain chan s)"


subsection \<open>Antenna and bandwidth\<close>



definition get_bandwidth :: "nat \<Rightarrow> source \<Rightarrow> fault + double" where
  "get_bandwidth chan s = arr_get (rx_bandwidth (StartParams s)) chan"

definition set_bandwidth :: "double \<Rightarrow> nat \<Rightarrow> source \<Rightarrow> fault + (double \<times> source)" where
  "set_bandwidth bandwidth0 chan s =
     (let bandwidth1 = (if bandwidth0 = 0 then dmul (sample_rate s) d_0_75 else bandwidth0)
      in case arr_set (rx_bandwidth (StartParams s)) chan bandwidth1 of
           Inl f \<Rightarrow> Inl f
         | Inr bws \<Rightarrow>
             let s1 = s\<lparr>StartParams := (StartParams s)\<lparr>rx_bandwidth := bws\<rparr>\<rparr>
             in (case get_bandwidth chan s1 of
                   Inl f \<Rightarrow> Inl f
                 | Inr b \<Rightarrow> Inr (b, s1\<lparr>bandwidth := b\<rparr>)))"

subsection \<open>Sequences of method calls\<close>





subsection \<open>Example objects\<close>

text \<open>
  An object with two channels as the constructor leaves it (centre frequency 3035 MHz,
  sample rate 400 kHz, automatic bandwidth, RF gain 0, not running), the same object after
  a successful \<open>start\<close> and a read that reported the timestamp 100, and a transport
  all of whose calls succeed.
\<close>

definition example_params :: SDRStartParams where
  "example_params =
     \<lparr>sample_rate_num = [400000, 0], sample_rate_den = [1, 0],
      rx_freq = [3035000000, 0], rx_gain = [0, 0], rx_bandwidth = [300000, 0]\<rparr>"

definition idle_source :: source where
  "idle_source =
     \<lparr>dev = Some 0, StartParams = example_params, timestamp_rx = 0, running = False,
      sample_rate = 400000, center_freq = 3035000000, freq_corr = 0, auto_gain = False,
      amp_gain = 0, vga_gain = 0, bandwidth = 300000, calls = [], cerr = []\<rparr>"

definition streaming_source :: source where
  "streaming_source =
     idle_source\<lparr>timestamp_rx := 100, running := True,
                   calls := [Msdr_start example_params, Msdr_get_stats, Msdr_read 1024 0 100]\<rparr>"

definition ok_transport :: transport where
  "ok_transport =
     \<lparr>msdr_start_ret = 0, msdr_stop_ret = 0, msdr_get_stats_ret = 0,
      msdr_get_stats_out = \<lparr>tx_underflow_count = 0, rx_overflow_count = 0\<rparr>,
      msdr_read_ret = 1024, msdr_read_timestamp = 50,
      msdr_set_rx_gain_ret = 0, msdr_get_rx_gain_ret = 24\<rparr>"


definition fractional_rate :: double where
  "fractional_rate = 10000000 + 1 / 134217728"

section \<open>Properties\<close>

subsection \<open>Rounding\<close>

lemma bitlen_powi:
  assumes "0 < (p::int)"
  shows "(2::rat) powi (bitlen p - 1) \<le> of_int p" "of_int p < (2::rat) powi (bitlen p)"
proof -
  from bitlen_bounds[OF assms] have a: "2 ^ nat (bitlen p - 1) \<le> p" and b: "p < 2 ^ nat (bitlen p)" by auto
  have bp: "1 \<le> bitlen p" using assms by (metis bitlen_eq_zero_iff bitlen_nonneg linorder_not_less order_le_less zle_diff1_eq diff_ge_0_iff_ge)
  have "(of_int (2 ^ nat (bitlen p - 1)) :: rat) \<le> of_int p" using a by (simp only: of_int_le_iff)
  then show "(2::rat) powi (bitlen p - 1) \<le> of_int p" using bp by (simp add: power_int_def)
  have "(of_int p :: rat) < of_int (2 ^ nat (bitlen p))" using b by (simp only: of_int_less_iff)
  then show "of_int p < (2::rat) powi (bitlen p)" using bp by (simp add: power_int_def)
qed

lemma expo_bounds:
  assumes "x \<noteq> 0"
  shows "2 powi (expo x) \<le> \<bar>x\<bar>" "\<bar>x\<bar> < 2 powi (expo x + 1)"
proof -
  obtain p q where pq: "quotient_of \<bar>x\<bar> = (p, q)" by (cases "quotient_of \<bar>x\<bar>")
  have q: "0 < q" using pq by (rule quotient_of_denom_pos)
  have x: "\<bar>x\<bar> = of_int p / of_int q" using pq by (rule quotient_of_div)
  have "0 < \<bar>x\<bar>" using assms by simp
  then have p: "0 < p" using q by (simp add: x zero_less_divide_iff)
  note P = bitlen_powi[OF p] and Q = bitlen_powi[OF q]
  have qpos: "(0::rat) < of_int q" using q by simp
  have up: "\<bar>x\<bar> < 2 powi (bitlen p - bitlen q + 1)"
  proof -
    have "of_int p / of_int q < (2::rat) powi (bitlen p) / of_int q"
      using P(2) qpos by (simp add: divide_strict_right_mono)
    also have "\<dots> \<le> 2 powi (bitlen p) / 2 powi (bitlen q - 1)"
      using Q(1) by (simp add: frac_le)
    also have "\<dots> = 2 powi (bitlen p - (bitlen q - 1))" by (simp add: power_int_diff)
    finally show ?thesis by (simp add: x algebra_simps)
  qed
  have lo: "2 powi (bitlen p - bitlen q - 1) \<le> \<bar>x\<bar>"
  proof -
    have "(2::rat) powi (bitlen p - 1 - bitlen q) = 2 powi (bitlen p - 1) / 2 powi (bitlen q)"
      by (simp add: power_int_diff)
    also have "\<dots> \<le> of_int p / 2 powi (bitlen q)" using P(1) by (simp add: divide_right_mono)
    also have "\<dots> \<le> of_int p / of_int q" using Q(2) qpos p by (simp add: frac_le)
    finally show ?thesis by (simp add: x algebra_simps)
  qed
  show "2 powi (expo x) \<le> \<bar>x\<bar>" using lo by (simp add: expo_def pq Let_def)
  show "\<bar>x\<bar> < 2 powi (expo x + 1)" using up by (simp add: expo_def pq Let_def)
qed

lemma pow2_less_iff: "((2::rat) powi a < 2 powi b) = (a < b)"
proof
  assume h: "(2::rat) powi a < 2 powi b"
  show "a < b"
  proof (rule ccontr)
    assume "\<not> a < b"
    then have "b \<le> a" by simp
    then have "(2::rat) powi b \<le> 2 powi a" by (rule power_int_increasing) simp
    with h show False by simp
  qed
next
  assume "a < b" then show "(2::rat) powi a < 2 powi b" by (rule power_int_strict_increasing) simp
qed

lemma pow2_le_iff: "((2::rat) powi a \<le> 2 powi b) = (a \<le> b)"
  using pow2_less_iff[of b a] by (simp add: not_less[symmetric])

lemma rne_of_int: "rne (of_int z) = z"
  by (simp add: rne_def)

lemma rne_le: assumes "m \<le> of_int M" shows "rne m \<le> M"
proof (cases "m = of_int M")
  case True then show ?thesis by (simp add: rne_of_int)
next
  case False
  with assms have "m < of_int M" by simp
  then have "\<lfloor>m\<rfloor> < M" by (simp add: floor_less_iff)
  moreover have "rne m \<le> \<lfloor>m\<rfloor> + 1" by (simp add: rne_def Let_def)
  ultimately show ?thesis by simp
qed

lemma rne_ge: assumes "of_int M \<le> m" shows "M \<le> rne m"
proof -
  have "M \<le> \<lfloor>m\<rfloor>" using assms by (simp add: le_floor_iff)
  moreover have "\<lfloor>m\<rfloor> \<le> rne m" by (simp add: rne_def Let_def)
  ultimately show ?thesis by simp
qed

lemma rnd_nonneg: assumes "0 \<le> x" shows "0 \<le> rnd x"
proof (cases "x = 0")
  case True then show ?thesis by (simp add: rnd_def)
next
  case False
  have "(of_int 0 :: rat) \<le> x / 2 powi (expo x - 52)" using assms by simp
  then have "0 \<le> rne (x / 2 powi (expo x - 52))" by (rule rne_ge)
  then show ?thesis using False by (simp add: rnd_def Let_def)
qed

lemma rnd_le_next_pow2: assumes "0 < x" shows "rnd x \<le> 2 powi (expo x + 1)"
proof -
  let ?u = "(2::rat) powi (expo x - 52)"
  have u: "0 < ?u" by simp
  have "x < 2 powi (expo x + 1)" using expo_bounds(2)[of x] assms by simp
  also have "\<dots> = 2 powi 53 * ?u" using power_int_add[of "2::rat" 53 "expo x - 52"] by (simp add: add.commute)
  finally have "x / ?u < 2 powi 53" using u by (simp add: pos_divide_less_eq)
  then have "x / ?u \<le> of_int (2 ^ 53)" by simp
  then have "rne (x / ?u) \<le> 2 ^ 53" by (rule rne_le)
  then have "(of_int (rne (x / ?u)) :: rat) \<le> of_int (2 ^ 53)" by (simp only: of_int_le_iff)
  then have "of_int (rne (x / ?u)) * ?u \<le> of_int (2 ^ 53) * ?u" using u by (simp only: mult_le_cancel_right_pos)
  also have "\<dots> = 2 powi 53 * ?u" by simp
  also have "\<dots> = 2 powi (expo x + 1)" using power_int_add[of "2::rat" 53 "expo x - 52"] by (simp add: add.commute)
  finally show ?thesis using assms by (simp add: rnd_def Let_def)
qed

lemma expo_unique: assumes "2 powi k \<le> x" "x < 2 powi (k + 1)" shows "expo x = k"
proof -
  have "(0::rat) < 2 powi k" by simp
  then have x: "0 < x" using assms(1) by linarith
  then have b: "2 powi expo x \<le> x" "x < 2 powi (expo x + 1)" using expo_bounds[of x] by simp_all
  have "(2::rat) powi k < 2 powi (expo x + 1)" using assms(1) b(2) by simp
  moreover have "(2::rat) powi expo x < 2 powi (k + 1)" using assms(2) b(1) by simp
  ultimately show ?thesis by (simp add: pow2_less_iff)
qed

lemma rnd_pow2: "rnd (2 powi k) = 2 powi k"
proof -
  have e: "expo (2 powi k) = k" by (rule expo_unique) (simp_all add: pow2_less_iff)
  have "(2::rat) powi k / 2 powi (k - 52) = of_int (2 ^ 52)" by (simp add: power_int_diff[symmetric])
  then have "rne ((2::rat) powi k / 2 powi (k - 52)) = 2 ^ 52" by (simp only: rne_of_int)
  moreover have "(of_int (2 ^ 52) :: rat) * 2 powi (k - 52) = 2 powi k"
    using power_int_add[of "2::rat" 52 "k - 52"] by simp
  ultimately show ?thesis by (simp add: rnd_def e Let_def)
qed

lemma rnd_le_pow2: assumes "0 \<le> x" "x \<le> 2 powi k" shows "rnd x \<le> 2 powi k"
proof (cases "x = 0 \<or> x = 2 powi k")
  case True
  then show ?thesis
  proof
    assume "x = 0" then show ?thesis by (simp add: rnd_def)
  next
    assume "x = 2 powi k" then show ?thesis by (simp only: rnd_pow2 order_refl)
  qed
next
  case False
  then have x: "0 < x" "x < 2 powi k" using assms by auto
  have "2 powi expo x \<le> x" using expo_bounds(1)[of x] x by simp
  then have "(2::rat) powi expo x < 2 powi k" using x(2) by simp
  then have "expo x + 1 \<le> k" by (simp add: pow2_less_iff)
  then have "(2::rat) powi (expo x + 1) \<le> 2 powi k" by (simp add: pow2_le_iff)
  with rnd_le_next_pow2[OF x(1)] show ?thesis by simp
qed

lemma rnd_of_int:
  assumes "0 \<le> n" "n \<le> 2 ^ 53" shows "rnd (of_int n) = of_int n"
proof (cases "n = 0 \<or> n = 2 ^ 53")
  case True
  then show ?thesis using rnd_pow2[of 53] by (auto simp: rnd_def)
next
  case False
  then have n: "0 < n" "n < 2 ^ 53" using assms by auto
  let ?x = "of_int n :: rat"
  have x0: "?x \<noteq> 0" using n by simp
  have "2 powi expo ?x \<le> ?x" using expo_bounds(1)[of ?x] n by simp
  also have "?x < of_int (2 ^ 53)" using n(2) by (simp only: of_int_less_iff)
  finally have "(2::rat) powi expo ?x < 2 powi 53" by simp
  then have e: "expo ?x \<le> 52" using pow2_less_iff[of "expo ?x" 53] by simp
  define k where "k = nat (52 - expo ?x)"
  have u: "(2::rat) powi (expo ?x - 52) = 1 / 2 ^ k"
    using e by (simp add: k_def power_int_def field_simps)
  have "?x / (1 / 2 ^ k) = of_int (n * 2 ^ k)" by simp
  then have "rne (?x / (1 / 2 ^ k)) = n * 2 ^ k" by (simp only: rne_of_int)
  then show ?thesis using x0 by (simp add: rnd_def u Let_def)
qed

subsection \<open>The greatest common divisor\<close>

text \<open>On arguments that are not negative the recursion of the source ends, with the
  greatest common divisor.\<close>

lemma gcd_long_nonneg:
  "0 \<le> a \<Longrightarrow> 0 \<le> b \<Longrightarrow> gcd_long a b = Some (gcd a b)"
proof (induction "nat (a + b)" arbitrary: a b rule: less_induct)
  case less
  show ?case
  proof (cases "a = 0 \<or> b = 0")
    case True
    then show ?thesis using less.prems by (subst gcd_long.simps) auto
  next
    case False
    then have pos: "0 < a" "0 < b" using less.prems by auto
    show ?thesis
    proof (cases "a < b")
      case True
      have m: "c_mod b a = b mod a" using pos by (simp add: c_mod_def c_div_def minus_mult_div_eq_mod)
      have r: "0 \<le> b mod a" "b mod a < a" using pos by simp_all
      then have "nat (a + b mod a) < nat (a + b)" using pos True by linarith
      then have "gcd_long a (b mod a) = Some (gcd a (b mod a))"
        using less.hyps[of a "b mod a"] pos r by simp
      moreover have "gcd a (b mod a) = gcd a b" by (metis gcd.commute gcd_red_int)
      ultimately show ?thesis using pos True m by (subst gcd_long.simps) simp
    next
      case False
      have m: "c_mod a b = a mod b" using pos by (simp add: c_mod_def c_div_def minus_mult_div_eq_mod)
      have r: "0 \<le> a mod b" "a mod b < b" using pos by simp_all
      then have "nat (b + a mod b) < nat (a + b)" using pos False by linarith
      then have "gcd_long b (a mod b) = Some (gcd b (a mod b))"
        using less.hyps[of b "a mod b"] pos r by simp
      moreover have "gcd b (a mod b) = gcd a b" by (metis gcd_red_int)
      ultimately show ?thesis using pos False m by (subst gcd_long.simps) simp
    qed
  qed
qed

subsection \<open>What the setters leave alone\<close>














text \<open>The automatic bandwidth of the example object: 0.75 times 400 kHz.\<close>

lemma dmul_400000_0_75: "dmul 400000 d_0_75 = 300000"
  by code_simp

subsection \<open>The sample rate negotiation\<close>

text \<open>
  Every rate the range check accepts is negotiated without undefined conversion and with
  a recursion that ends. With \<open>n\<close> the rounded fractional part and \<open>g\<close> its greatest common
  divisor with the precision, the denominator stored is \<open>1000000000 div g\<close>, and the
  numerator stored is the \<^verbatim>\<open>double\<close> sum of the \<^verbatim>\<open>double\<close> product
  \<open>\<lfloor>rate\<rfloor> * (1000000000 div g)\<close> and \<open>n div g\<close>, converted to an integer. The sum is the
  exact one when it does not exceed \<open>2 ^ 53\<close>; an integral rate gives the denominator 1.
\<close>

lemma long_to_double_exact:
  "0 \<le> n \<Longrightarrow> n \<le> 2 ^ 53 \<Longrightarrow> long_to_double n = of_int n"
  by (simp add: long_to_double_def rnd_of_int)

lemma double_to_long_of_int:
  "0 \<le> n \<Longrightarrow> n < 2 ^ 63 \<Longrightarrow> double_to_long (of_int n) = Some n"
  by (simp add: double_to_long_def trunc_def)

lemma pciesdr_set_sample_rate_accepted:
  fixes rate :: rat
  assumes r: "400000 \<le> rate" "rate \<le> 25000000"
    and len: "0 < length (sample_rate_num (StartParams s))"
             "0 < length (sample_rate_den (StartParams s))"
  defines "n \<equiv> \<lfloor>dmul (dsub rate (dfloor rate)) 1000000000 + 1/2\<rfloor>"
  defines "g \<equiv> gcd n 1000000000"
  shows "pciesdr_set_sample_rate rate s =
           Inr (0, s\<lparr>StartParams := (StartParams s)
                 \<lparr>sample_rate_num := (sample_rate_num (StartParams s))
                    [0 := word_of_int \<lfloor>dadd (dmul (of_int \<lfloor>rate\<rfloor>) (of_int (1000000000 div g)))
                                            (of_int (n div g))\<rfloor>],
                  sample_rate_den := (sample_rate_den (StartParams s))
                    [0 := word_of_int (1000000000 div g)]\<rparr>\<rparr>)"
    and "0 \<le> n" "n \<le> 2 ^ 30" "0 < g"
proof -
  let ?frac = "dsub rate (dfloor rate)"
  let ?p = "dmul ?frac 1000000000"
  have P: "long_to_double 1000000000 = 1000000000"
    using long_to_double_exact [of 1000000000] by simp
  have "0 \<le> rate - of_int \<lfloor>rate\<rfloor>" "rate - of_int \<lfloor>rate\<rfloor> \<le> 2 powi 0"
    by simp_all linarith
  then have frac: "0 \<le> ?frac" "?frac \<le> 1"
    using rnd_nonneg [of "rate - of_int \<lfloor>rate\<rfloor>"] rnd_le_pow2 [of "rate - of_int \<lfloor>rate\<rfloor>" 0]
    by (simp_all add: dsub_def dfloor_def)
  have "0 \<le> ?frac * 1000000000" "?frac * 1000000000 \<le> 2 powi 30" using frac by simp_all
  then have p: "0 \<le> ?p" "?p \<le> 1073741824"
    using rnd_nonneg [of "?frac * 1000000000"] rnd_le_pow2 [of "?frac * 1000000000" 30]
    by (simp_all add: dmul_def)
  show n0: "0 \<le> n" using p(1) by (simp add: n_def)
  have "?p + 1/2 < of_int (1073741824 + 1)" using p(2) by simp
  then have "n < 1073741824 + 1" unfolding n_def by (simp only: floor_less_iff)
  then show n1: "n \<le> 2 ^ 30" by simp
  have dr: "dround ?p = of_int n" using p(1) by (simp add: dround_def n_def)
  have tl: "double_to_long (of_int n) = Some n"
    using n0 n1 by (intro double_to_long_of_int) simp_all
  have gc: "gcd_long n 1000000000 = Some g"
    using gcd_long_nonneg [of n 1000000000] n0 by (simp add: g_def)
  show g0: "0 < g" by (simp add: g_def)
  have gd: "g dvd n" "g dvd 1000000000" by (simp_all add: g_def)
  have g1: "g \<le> 1000000000" using gd(2) by (intro zdvd_imp_le) simp_all
  have cd: "c_div 1000000000 g = 1000000000 div g" using g0 by (simp add: c_div_def)
  have lg: "long_to_double g = of_int g" using g0 g1 by (intro long_to_double_exact) simp_all
  have q0: "0 \<le> n div g" using n0 g0 by (simp add: pos_imp_zdiv_nonneg_iff)
  have "n div g \<le> n div 1" using n0 g0 by (intro zdiv_mono2) simp_all
  then have q1: "n div g \<le> 2 ^ 30" using n1 by simp
  have "(of_int n :: rat) / of_int g = of_int (n div g)" using gd(1) by (simp add: of_int_div)
  then have dv: "ddiv (of_int n) (of_int g) = of_int (n div g)"
    using rnd_of_int [of "n div g"] q0 q1 by (simp add: ddiv_def)
  have tq: "double_to_long (of_int (n div g)) = Some (n div g)"
    using q0 q1 by (intro double_to_long_of_int) simp_all
  have d0: "0 < 1000000000 div g" using g0 g1 by (simp add: pos_imp_zdiv_pos_iff)
  have "1000000000 div g \<le> 1000000000 div 1" using g0 by (intro zdiv_mono2) simp_all
  then have d1: "1000000000 div g \<le> 1000000000" by simp
  have ld: "long_to_double (1000000000 div g) = of_int (1000000000 div g)"
    using d0 d1 by (intro long_to_double_exact) simp_all
  have lq: "long_to_double (n div g) = of_int (n div g)"
    using q0 q1 by (intro long_to_double_exact) simp_all
  let ?I = "\<lfloor>rate\<rfloor>"
  have I: "0 \<le> ?I" "?I \<le> 25000000" using r by (simp_all add: le_floor_iff floor_le_iff)
  have "?I * (1000000000 div g) \<le> 25000000 * 1000000000"
    using I d0 d1 by (intro mult_mono) simp_all
  then have "(of_int (?I * (1000000000 div g)) :: rat) \<le> of_int (25000000 * 1000000000)"
    by (simp only: of_int_le_iff)
  then have pr_le: "(of_int ?I :: rat) * of_int (1000000000 div g) \<le> 2 powi 55" by simp
  have pr_ge: "0 \<le> (of_int ?I :: rat) * of_int (1000000000 div g)" using I(1) d0 by simp
  let ?prod = "dmul (of_int ?I) (of_int (1000000000 div g))"
  have prod: "0 \<le> ?prod" "?prod \<le> 2 powi 55"
    using rnd_nonneg [OF pr_ge] rnd_le_pow2 [OF pr_ge pr_le] by (simp_all add: dmul_def)
  have "(of_int (n div g) :: rat) \<le> of_int (2 ^ 30)" using q1 by (simp only: of_int_le_iff)
  then have sm_le: "?prod + of_int (n div g) \<le> 2 powi 56" using prod(2) by simp
  have sm_ge: "0 \<le> ?prod + of_int (n div g)" using prod(1) q0 by simp
  let ?sum = "dadd ?prod (of_int (n div g))"
  have sum: "0 \<le> ?sum" "?sum \<le> 2 powi 56"
    using rnd_nonneg [OF sm_ge] rnd_le_pow2 [OF sm_ge sm_le] by (simp_all add: dadd_def)
  have "\<lfloor>?sum\<rfloor> \<le> 2 ^ 56" using sum(2) by (simp add: floor_le_iff)
  moreover have "0 \<le> \<lfloor>?sum\<rfloor>" using sum(1) by simp
  ultimately have cv: "double_to_int64 ?sum = Some (word_of_int \<lfloor>?sum\<rfloor>)"
    using sum(1) by (simp add: double_to_int64_def trunc_def)
  show "pciesdr_set_sample_rate rate s =
           Inr (0, s\<lparr>StartParams := (StartParams s)
                 \<lparr>sample_rate_num := (sample_rate_num (StartParams s))
                    [0 := word_of_int \<lfloor>dadd (dmul (of_int \<lfloor>rate\<rfloor>) (of_int (1000000000 div g)))
                                            (of_int (n div g))\<rfloor>],
                  sample_rate_den := (sample_rate_den (StartParams s))
                    [0 := word_of_int (1000000000 div g)]\<rparr>\<rparr>)"
  proof -
    have F: "of_int \<lfloor>rate\<rfloor> = dfloor rate" by (simp add: dfloor_def)
    note cv' = cv [unfolded F]
    show ?thesis
      using r len g0
      by (simp add: pciesdr_set_sample_rate_def Let_def P dr tl gc cd lg dv tq ld lq cv'
            arr_set_def F not_less)
  qed
qed


lemma pciesdr_set_sample_rate_exact:
  fixes rate :: rat
  assumes r: "400000 \<le> rate" "rate \<le> 25000000"
    and len: "0 < length (sample_rate_num (StartParams s))"
             "0 < length (sample_rate_den (StartParams s))"
  defines "n \<equiv> \<lfloor>dmul (dsub rate (dfloor rate)) 1000000000 + 1/2\<rfloor>"
  defines "g \<equiv> gcd n 1000000000"
  assumes small: "\<lfloor>rate\<rfloor> * (1000000000 div g) + n div g \<le> 2 ^ 53"
  shows "pciesdr_set_sample_rate rate s =
           Inr (0, s\<lparr>StartParams := (StartParams s)
                 \<lparr>sample_rate_num := (sample_rate_num (StartParams s))
                    [0 := word_of_int (\<lfloor>rate\<rfloor> * (1000000000 div g) + n div g)],
                  sample_rate_den := (sample_rate_den (StartParams s))
                    [0 := word_of_int (1000000000 div g)]\<rparr>\<rparr>)"
proof -
  note acc = pciesdr_set_sample_rate_accepted [OF r len, folded n_def g_def]
  have I: "0 \<le> \<lfloor>rate\<rfloor>" using r by simp
  have d: "0 \<le> 1000000000 div g" using acc(4) by (simp add: pos_imp_zdiv_nonneg_iff)
  have q: "0 \<le> n div g" using acc(2,4) by (simp add: pos_imp_zdiv_nonneg_iff)
  have pr0: "0 \<le> \<lfloor>rate\<rfloor> * (1000000000 div g)" using I d by simp
  have pr1: "\<lfloor>rate\<rfloor> * (1000000000 div g) \<le> 2 ^ 53" using small q by linarith
  have "dmul (of_int \<lfloor>rate\<rfloor>) (of_int (1000000000 div g)) =
          of_int (\<lfloor>rate\<rfloor> * (1000000000 div g))"
    using rnd_of_int [OF pr0 pr1] by (simp add: dmul_def)
  moreover have "rnd (of_int (\<lfloor>rate\<rfloor> * (1000000000 div g) + n div g)) =
          of_int (\<lfloor>rate\<rfloor> * (1000000000 div g) + n div g)"
    using pr0 q small by (intro rnd_of_int) simp_all
  ultimately have "dadd (dmul (of_int \<lfloor>rate\<rfloor>) (of_int (1000000000 div g)))
                        (of_int (n div g)) =
          of_int (\<lfloor>rate\<rfloor> * (1000000000 div g) + n div g)"
    by (simp add: dadd_def)
  then have "\<lfloor>dadd (dmul (of_int \<lfloor>rate\<rfloor>) (of_int (1000000000 div g)))
                        (of_int (n div g))\<rfloor> =
          \<lfloor>rate\<rfloor> * (1000000000 div g) + n div g"
    by (simp only: floor_of_int)
  with acc(1) show ?thesis by simp
qed

lemma pciesdr_set_sample_rate_integral:
  assumes r: "400000 \<le> k" "k \<le> 25000000"
    and len: "0 < length (sample_rate_num (StartParams s))"
             "0 < length (sample_rate_den (StartParams s))"
  shows "pciesdr_set_sample_rate (of_int k) s =
           Inr (0, s\<lparr>StartParams := (StartParams s)
                 \<lparr>sample_rate_num := (sample_rate_num (StartParams s))[0 := word_of_int k],
                  sample_rate_den := (sample_rate_den (StartParams s))[0 := 1]\<rparr>\<rparr>)"
proof -
  have n: "\<lfloor>dmul (dsub (of_int k) (dfloor (of_int k))) 1000000000 + 1/2\<rfloor> = 0"
    by (simp add: dmul_def dsub_def dfloor_def rnd_def floor_eq_iff)
  have r': "400000 \<le> (of_int k :: rat)" "(of_int k :: rat) \<le> 25000000"
    using r by (simp_all add: of_int_le_iff [of 400000 k, simplified] of_int_le_iff [of k 25000000, simplified])
  show ?thesis
    using pciesdr_set_sample_rate_exact [OF r' len] r by (simp add: n)
qed

subsection \<open>The frequency setter\<close>






section \<open>The claims\<close>

subsection \<open>Lifecycle\<close>

text \<open>
  C1, as the source has it. With a handle that is not null, \<open>stop\<close> issues the stop command;
  when the transport answers 0 it clears the running flag and returns true; when the
  transport answers a failure it reports it, returns false and leaves the running flag as
  it was.
\<close>

theorem stop_clears_running_on_success_only:
  "dev s \<noteq> None \<Longrightarrow>
     (msdr_stop_ret tr = 0 \<longrightarrow>
        stop tr s = (True, (call Msdr_stop s)\<lparr>running := False\<rparr>)) \<and>
     (msdr_stop_ret tr \<noteq> 0 \<longrightarrow>
        stop tr s = (False, report (Failed_to_stop (msdr_stop_ret tr)) (call Msdr_stop s)) \<and>
        running (snd (stop tr s)) = running s)"
  by (auto simp: stop_def Let_def call_def report_def)

theorem stop_clears_running_on_success_only_witness:
  "dev streaming_source \<noteq> None \<and>
   msdr_stop_ret ok_transport = 0 \<and>
   \<not> running (snd (stop ok_transport streaming_source)) \<and>
   msdr_stop_ret (ok_transport\<lparr>msdr_stop_ret := 1\<rparr>) \<noteq> 0 \<and>
   running (snd (stop (ok_transport\<lparr>msdr_stop_ret := 1\<rparr>) streaming_source)) =
     running streaming_source"
  using stop_clears_running_on_success_only [of streaming_source ok_transport]
        stop_clears_running_on_success_only
          [of streaming_source "ok_transport\<lparr>msdr_stop_ret := 1\<rparr>"]
  by (simp add: streaming_source_def idle_source_def ok_transport_def call_def report_def)

text \<open>
  C1 as stated fails: the handle is not null, the transport's stop command answers 1, and
  the running flag is still set after \<open>stop\<close>, which has returned false.
\<close>

theorem stop_failure_keeps_running:
  "dev streaming_source \<noteq> None \<and>
   msdr_stop_ret (ok_transport\<lparr>msdr_stop_ret := 1\<rparr>) \<noteq> 0 \<and>
   running (snd (stop (ok_transport\<lparr>msdr_stop_ret := 1\<rparr>) streaming_source)) \<and>
   \<not> fst (stop (ok_transport\<lparr>msdr_stop_ret := 1\<rparr>) streaming_source)"
  by (simp add: stop_def Let_def call_def report_def streaming_source_def idle_source_def
        ok_transport_def)

text \<open>
  C6. \<open>start\<close> returns false and leaves the running flag and the timestamp as they were
  when the start command fails (the failure is reported) and when the statistics query
  that follows fails (reported as well); when both succeed it sets the timestamp to 0 and
  the running flag, and returns true. It returns true in no other case.
\<close>

theorem start_all_or_nothing:
  "(dev s \<noteq> None \<and> msdr_start_ret tr \<noteq> 0 \<longrightarrow>
      start tr s = (False, report Failed_to_start (call (Msdr_start (StartParams s)) s)) \<and>
      running (snd (start tr s)) = running s \<and>
      timestamp_rx (snd (start tr s)) = timestamp_rx s) \<and>
   (dev s \<noteq> None \<and> msdr_start_ret tr = 0 \<and> msdr_get_stats_ret tr \<noteq> 0 \<longrightarrow>
      start tr s =
        (False, report Get_stats_failed
                  (call Msdr_get_stats (call (Msdr_start (StartParams s)) s))) \<and>
      running (snd (start tr s)) = running s \<and>
      timestamp_rx (snd (start tr s)) = timestamp_rx s) \<and>
   (dev s \<noteq> None \<and> msdr_start_ret tr = 0 \<and> msdr_get_stats_ret tr = 0 \<longrightarrow>
      start tr s =
        (True, (call Msdr_get_stats (call (Msdr_start (StartParams s)) s))
                 \<lparr>timestamp_rx := 0, running := True\<rparr>)) \<and>
   (fst (start tr s) \<longrightarrow>
      dev s \<noteq> None \<and> msdr_start_ret tr = 0 \<and> msdr_get_stats_ret tr = 0)"
  by (auto simp: start_def Let_def call_def report_def)

theorem start_all_or_nothing_witness:
  "(msdr_start_ret (ok_transport\<lparr>msdr_start_ret := 1\<rparr>) \<noteq> 0 \<and>
    \<not> fst (start (ok_transport\<lparr>msdr_start_ret := 1\<rparr>) streaming_source) \<and>
    running (snd (start (ok_transport\<lparr>msdr_start_ret := 1\<rparr>) streaming_source)) \<and>
    timestamp_rx (snd (start (ok_transport\<lparr>msdr_start_ret := 1\<rparr>) streaming_source)) = 100) \<and>
   (msdr_get_stats_ret (ok_transport\<lparr>msdr_get_stats_ret := 1\<rparr>) \<noteq> 0 \<and>
    \<not> fst (start (ok_transport\<lparr>msdr_get_stats_ret := 1\<rparr>) streaming_source) \<and>
    running (snd (start (ok_transport\<lparr>msdr_get_stats_ret := 1\<rparr>) streaming_source)) \<and>
    timestamp_rx (snd (start (ok_transport\<lparr>msdr_get_stats_ret := 1\<rparr>) streaming_source)) = 100) \<and>
   (dev streaming_source \<noteq> None \<and> fst (start ok_transport streaming_source) \<and>
    running (snd (start ok_transport streaming_source)) \<and>
    timestamp_rx (snd (start ok_transport streaming_source)) = 0)"
  using start_all_or_nothing [of streaming_source "ok_transport\<lparr>msdr_start_ret := 1\<rparr>"]
        start_all_or_nothing [of streaming_source "ok_transport\<lparr>msdr_get_stats_ret := 1\<rparr>"]
        start_all_or_nothing [of streaming_source ok_transport]
  by (simp add: streaming_source_def idle_source_def ok_transport_def call_def report_def)

subsection \<open>The per-cycle read\<close>

text \<open>
  C4. When the transport's read answers a negative code, \<open>work\<close> returns 0 whatever the
  requested count, leaves the timestamp as it was, and asks the transport for its
  statistics once, after the read. Nothing but the two calls and the two lines on
  \<^verbatim>\<open>std::cerr\<close> changes in the object, and what the statistics query answers only chooses
  the second line: the result and the rest of the object are the same for every answer.
\<close>

theorem work_read_failure:
  "msdr_read_ret tr <s 0 \<Longrightarrow>
     fst (work tr n s) = 0 \<and>
     timestamp_rx (snd (work tr n s)) = timestamp_rx s \<and>
     snd (work tr n s) =
       s\<lparr>calls := calls s @ [Msdr_read n 0 100, Msdr_get_stats],
         cerr := cerr s @
           [Failed_read (msdr_read_ret tr) n (timestamp_rx s) (msdr_read_timestamp tr),
            if msdr_get_stats_ret tr \<noteq> 0 then Failed_get_stats
            else Stats_counts (tx_underflow_count (msdr_get_stats_out tr))
                              (rx_overflow_count (msdr_get_stats_out tr))]\<rparr> \<and>
     fst (work (tr\<lparr>msdr_get_stats_ret := r, msdr_get_stats_out := st\<rparr>) n s) =
       fst (work tr n s) \<and>
     (snd (work (tr\<lparr>msdr_get_stats_ret := r, msdr_get_stats_out := st\<rparr>) n s))
        \<lparr>cerr := []\<rparr> =
       (snd (work tr n s))\<lparr>cerr := []\<rparr>"
  by (simp add: work_def Let_def call_def report_def)

theorem work_read_failure_witness:
  "msdr_read_ret (ok_transport\<lparr>msdr_read_ret := - 1\<rparr>) <s 0 \<and>
   fst (work (ok_transport\<lparr>msdr_read_ret := - 1\<rparr>) 1024 streaming_source) = 0 \<and>
   timestamp_rx (snd (work (ok_transport\<lparr>msdr_read_ret := - 1\<rparr>) 1024 streaming_source))
     = 100 \<and>
   calls (snd (work (ok_transport\<lparr>msdr_read_ret := - 1\<rparr>) 1024 streaming_source)) =
     calls streaming_source @ [Msdr_read 1024 0 100, Msdr_get_stats]"
  using work_read_failure [of "ok_transport\<lparr>msdr_read_ret := - 1\<rparr>" 1024 streaming_source]
  by (simp add: streaming_source_def idle_source_def ok_transport_def word_sless_alt)

subsection \<open>Gain\<close>

text \<open>
  C2. For a channel of the array, \<open>set_gain\<close> stores the gain in the start parameters, always.
  When the block is running it then issues the live gain command, with the stored value,
  and a failure of that command adds a line to \<^verbatim>\<open>std::cerr\<close> and nothing else: the stored
  value and the rest of the object are the same. It returns what \<open>get_gain\<close> returns: the
  live value asked from the transport when running, the configured value otherwise.
\<close>

theorem set_gain_configured_and_live:
  "chan < length (rx_gain (StartParams s)) \<Longrightarrow>
     (\<exists>r s'. set_gain tr g chan s = Inr (r, s') \<and>
        StartParams s' = (StartParams s)\<lparr>rx_gain := (rx_gain (StartParams s))[chan := g]\<rparr> \<and>
        rx_gain (StartParams s') ! chan = g \<and>
        r = (if running s then msdr_get_rx_gain_ret tr else g) \<and>
        calls s' = calls s @
          (if running s then [Msdr_set_rx_gain chan g, Msdr_get_rx_gain chan] else []) \<and>
        cerr s' = cerr s @
          (if running s \<and> msdr_set_rx_gain_ret tr \<noteq> 0
           then [Failed_to_set_rx_gain (msdr_set_rx_gain_ret tr) chan] else []) \<and>
        s'\<lparr>StartParams := StartParams s, calls := calls s, cerr := cerr s\<rparr> = s) \<and>
     get_gain tr chan s =
       Inr (if running s then msdr_get_rx_gain_ret tr else rx_gain (StartParams s) ! chan,
            if running s then call (Msdr_get_rx_gain chan) s else s)"
  by (simp add: set_gain_def get_gain_def arr_set_def arr_get_def Let_def call_def report_def)

theorem set_gain_configured_and_live_witness:
  "(0::nat) < length (rx_gain (StartParams idle_source)) \<and>
   \<not> running idle_source \<and>
   set_gain ok_transport 25 0 idle_source =
     Inr (25, idle_source\<lparr>StartParams := example_params\<lparr>rx_gain := [25, 0]\<rparr>\<rparr>) \<and>
   running streaming_source \<and>
   (\<exists>s'. set_gain (ok_transport\<lparr>msdr_set_rx_gain_ret := 1\<rparr>) 25 0 streaming_source =
            Inr (24, s') \<and>
         rx_gain (StartParams s') = [25, 0] \<and>
         cerr s' = [Failed_to_set_rx_gain 1 0])"
  using set_gain_configured_and_live [of 0 idle_source ok_transport 25]
        set_gain_configured_and_live
          [of 0 streaming_source "ok_transport\<lparr>msdr_set_rx_gain_ret := 1\<rparr>" 25]
  by (simp add: streaming_source_def idle_source_def ok_transport_def example_params_def
        set_gain_def get_gain_def arr_set_def arr_get_def Let_def call_def report_def)

text \<open>
  C9. Setting the gain of the stage \<^verbatim>\<open>"IF"\<close>, through \<open>set_gain\<close> with the name or through
  \<open>set_if_gain\<close>, returns the stored \<^verbatim>\<open>_vga_gain\<close> and leaves the whole object as it was:
  the configured RF gain, and the list of calls issued to the transport with it.
\<close>

theorem set_if_gain_is_a_stub:
  "set_if_gain g chan s = (vga_gain s, s) \<and>
   set_gain_named tr g ''IF'' chan s = Inr (vga_gain s, s) \<and>
   calls (snd (set_if_gain g chan s)) = calls s \<and>
   rx_gain (StartParams (snd (set_if_gain g chan s))) = rx_gain (StartParams s)"
  by (simp add: set_if_gain_def set_gain_named_def Let_def)

subsection \<open>Bandwidth\<close>

text \<open>
  C10. For a channel of the array, \<open>set_bandwidth\<close> with the bandwidth 0 selects 0.75 times
  the configured sample rate (the product of the two \<^verbatim>\<open>double\<close>s), stores it in the start
  parameters and in \<^verbatim>\<open>_bandwidth\<close>, and returns it; with another bandwidth it stores and
  returns that one. \<open>get_bandwidth\<close> returns the value stored in the start parameters.
\<close>

theorem set_bandwidth_automatic_or_given:
  "chan < length (rx_bandwidth (StartParams s)) \<Longrightarrow>
     (b = 0 \<longrightarrow>
        set_bandwidth b chan s =
          Inr (dmul (sample_rate s) d_0_75,
               s\<lparr>StartParams := (StartParams s)
                      \<lparr>rx_bandwidth := (rx_bandwidth (StartParams s))
                                          [chan := dmul (sample_rate s) d_0_75]\<rparr>,
                 bandwidth := dmul (sample_rate s) d_0_75\<rparr>)) \<and>
     (b \<noteq> 0 \<longrightarrow>
        set_bandwidth b chan s =
          Inr (b, s\<lparr>StartParams := (StartParams s)
                         \<lparr>rx_bandwidth := (rx_bandwidth (StartParams s))[chan := b]\<rparr>,
                    bandwidth := b\<rparr>)) \<and>
     (\<forall>r s'. set_bandwidth b chan s = Inr (r, s') \<longrightarrow> get_bandwidth chan s' = Inr r) \<and>
     get_bandwidth chan s = Inr (rx_bandwidth (StartParams s) ! chan)"
  by (auto simp: set_bandwidth_def get_bandwidth_def arr_set_def arr_get_def Let_def)

theorem set_bandwidth_automatic_or_given_witness:
  "(1::nat) < length (rx_bandwidth (StartParams idle_source)) \<and>
   set_bandwidth 0 1 idle_source =
     Inr (300000, idle_source\<lparr>StartParams := example_params\<lparr>rx_bandwidth := [300000, 300000]\<rparr>,
                              bandwidth := 300000\<rparr>) \<and>
   set_bandwidth 5000000 0 idle_source =
     Inr (5000000, idle_source\<lparr>StartParams := example_params\<lparr>rx_bandwidth := [5000000, 0]\<rparr>,
                               bandwidth := 5000000\<rparr>) \<and>
   get_bandwidth 0 idle_source = Inr 300000"
  using set_bandwidth_automatic_or_given [of 1 idle_source 0]
        set_bandwidth_automatic_or_given [of 0 idle_source 5000000]
  by (simp add: idle_source_def example_params_def dmul_400000_0_75)

subsection \<open>The timestamp\<close>




subsection \<open>Sample rate\<close>



text \<open>
  C3 at the rate 10000000.000000007450580596923828125, which the range check accepts. The
  integral part is 10000000, the fractional part times the precision rounds to 7, whose
  greatest common divisor with the precision is 1: the numerator the claim describes is
  10000000 * 1000000000 + 7. The source adds in \<^verbatim>\<open>double\<close>, where 10000000000000007 is not
  a value (above \<open>2 ^ 53\<close> the binary64 values are even), and stores 10000000000000008,
  with the denominator 1000000000.
\<close>

theorem numerator_rounded_above_2_53:
  "is_double fractional_rate \<and>
   400000 \<le> fractional_rate \<and> fractional_rate \<le> 25000000 \<and>
   \<lfloor>fractional_rate\<rfloor> = 10000000 \<and>
   \<lfloor>(fractional_rate - 10000000) * 1000000000 + 1/2\<rfloor> = 7 \<and>
   gcd (7::int) 1000000000 = 1 \<and>
   pciesdr_set_sample_rate fractional_rate idle_source =
     Inr (0, idle_source\<lparr>StartParams := example_params
               \<lparr>sample_rate_num := [10000000000000008, 0],
                sample_rate_den := [1000000000, 0]\<rparr>\<rparr>) \<and>
   (10000000000000008 :: int64) \<noteq> word_of_int (10000000 * 1000000000 + 7)"
proof -
  let ?R = "fractional_rate"
  have d: "is_double ?R" by code_simp
  have n: "\<lfloor>dmul (dsub ?R (dfloor ?R)) 1000000000 + 1/2\<rfloor> = 7" by code_simp
  have n': "\<lfloor>(?R - 10000000) * 1000000000 + 1/2\<rfloor> = 7" by code_simp
  have g: "gcd (7::int) 1000000000 = 1" by code_simp
  have fl: "\<lfloor>?R\<rfloor> = 10000000" by code_simp
  have sm: "\<lfloor>dadd (dmul 10000000 1000000000) 7\<rfloor> = 10000000000000008" by code_simp
  have len: "0 < length (sample_rate_num (StartParams idle_source))"
            "0 < length (sample_rate_den (StartParams idle_source))"
    by (simp_all add: idle_source_def example_params_def)
  have r: "400000 \<le> ?R" "?R \<le> 25000000" by (simp_all add: fractional_rate_def)
  have e: "pciesdr_set_sample_rate ?R idle_source =
     Inr (0, idle_source\<lparr>StartParams := example_params
               \<lparr>sample_rate_num := [10000000000000008, 0],
                sample_rate_den := [1000000000, 0]\<rparr>\<rparr>)"
    using pciesdr_set_sample_rate_accepted(1) [OF r len]
    by (simp add: n g fl sm idle_source_def example_params_def)
  have w: "(10000000000000008 :: int64) \<noteq> word_of_int (10000000 * 1000000000 + 7)"
    by simp
  from d r fl n' g e w show ?thesis by (intro conjI)
qed

subsection \<open>Frequency correction\<close>



end
